theory Spec2Isabelle
  imports Complex_Main
begin

section \<open>Floating-point values of the ray tracer\<close>

text \<open>
  The program computes with numpy doubles. They are modelled as exact real numbers
  together with the three special values a numpy operation can produce without raising:
  the two infinities and NaN. Rounding and overflow are idealised away (a finite value is a
  real number), and zero carries no sign. What is kept is the part of the IEEE behaviour
  the control flow depends on: the square root of a negative number and \<open>arccos\<close> or
  \<open>arcsin\<close> outside \<open>[-1, 1]\<close> are NaN, a numpy division by zero is an infinity or NaN,
  NaN propagates through every operation, and every comparison with NaN is false.
\<close>

datatype npfloat = Fin real | PInf | NInf | NaN

text \<open>Sign of a value that is not NaN, and the infinity (or NaN) of a given sign.\<close>

fun np_sign :: "npfloat \<Rightarrow> real" where
  "np_sign (Fin a) = sgn a"
| "np_sign PInf = 1"
| "np_sign NInf = - 1"
| "np_sign NaN = 0"

definition inf_of_sign :: "real \<Rightarrow> npfloat" where
  "inf_of_sign s = (if 0 < s then PInf else if s < 0 then NInf else NaN)"

instantiation npfloat :: "{plus, minus, uminus, times, inverse, abs, ord}"
begin

fun uminus_npfloat :: "npfloat \<Rightarrow> npfloat" where
  "uminus_npfloat (Fin a) = Fin (- a)"
| "uminus_npfloat PInf = NInf"
| "uminus_npfloat NInf = PInf"
| "uminus_npfloat NaN = NaN"

fun plus_npfloat :: "npfloat \<Rightarrow> npfloat \<Rightarrow> npfloat" where
  "plus_npfloat (Fin a) (Fin b) = Fin (a + b)"
| "plus_npfloat NaN _ = NaN"
| "plus_npfloat _ NaN = NaN"
| "plus_npfloat PInf NInf = NaN"
| "plus_npfloat NInf PInf = NaN"
| "plus_npfloat PInf _ = PInf"
| "plus_npfloat _ PInf = PInf"
| "plus_npfloat NInf _ = NInf"
| "plus_npfloat _ NInf = NInf"

definition minus_npfloat :: "npfloat \<Rightarrow> npfloat \<Rightarrow> npfloat" where
  "minus_npfloat a b = a + (- b)"

fun times_npfloat :: "npfloat \<Rightarrow> npfloat \<Rightarrow> npfloat" where
  "times_npfloat (Fin a) (Fin b) = Fin (a * b)"
| "times_npfloat NaN _ = NaN"
| "times_npfloat _ NaN = NaN"
| "times_npfloat a b = inf_of_sign (np_sign a * np_sign b)"

text \<open>
  Division of numpy scalars and arrays: dividing by zero does not raise. A finite
  nonzero value over zero is an infinity of its sign, zero over zero is NaN.
\<close>

fun divide_npfloat :: "npfloat \<Rightarrow> npfloat \<Rightarrow> npfloat" where
  "divide_npfloat (Fin a) (Fin b) = (if b = 0 then inf_of_sign a else Fin (a / b))"
| "divide_npfloat NaN _ = NaN"
| "divide_npfloat _ NaN = NaN"
| "divide_npfloat (Fin a) _ = Fin 0"
| "divide_npfloat PInf (Fin b) = (if b < 0 then NInf else PInf)"
| "divide_npfloat NInf (Fin b) = (if b < 0 then PInf else NInf)"
| "divide_npfloat _ _ = NaN"

definition inverse_npfloat :: "npfloat \<Rightarrow> npfloat" where
  "inverse_npfloat a = divide (Fin 1) a"

fun abs_npfloat :: "npfloat \<Rightarrow> npfloat" where
  "abs_npfloat (Fin a) = Fin \<bar>a\<bar>"
| "abs_npfloat PInf = PInf"
| "abs_npfloat NInf = PInf"
| "abs_npfloat NaN = NaN"

fun less_npfloat :: "npfloat \<Rightarrow> npfloat \<Rightarrow> bool" where
  "less_npfloat (Fin a) (Fin b) = (a < b)"
| "less_npfloat NaN _ = False"
| "less_npfloat _ NaN = False"
| "less_npfloat NInf NInf = False"
| "less_npfloat NInf _ = True"
| "less_npfloat PInf _ = False"
| "less_npfloat _ PInf = True"
| "less_npfloat _ _ = False"

definition less_eq_npfloat :: "npfloat \<Rightarrow> npfloat \<Rightarrow> bool" where
  "less_eq_npfloat a b = (a < b \<or> (a \<noteq> NaN \<and> a = b))"

instance ..

end

text \<open>The comparison \<open>==\<close>: NaN is equal to nothing, not even to itself.\<close>

definition np_eq :: "npfloat \<Rightarrow> npfloat \<Rightarrow> bool" where
  "np_eq a b = (a \<noteq> NaN \<and> a = b)"

text \<open>Truth value of a float in a condition: everything but zero, NaN included.\<close>

definition truthy :: "npfloat \<Rightarrow> bool" where
  "truthy a = (a \<noteq> Fin 0)"

fun np_sqrt :: "npfloat \<Rightarrow> npfloat" where
  "np_sqrt (Fin a) = (if a < 0 then NaN else Fin (sqrt a))"
| "np_sqrt PInf = PInf"
| "np_sqrt _ = NaN"

fun np_sin :: "npfloat \<Rightarrow> npfloat" where
  "np_sin (Fin a) = Fin (sin a)"
| "np_sin _ = NaN"

fun np_cos :: "npfloat \<Rightarrow> npfloat" where
  "np_cos (Fin a) = Fin (cos a)"
| "np_cos _ = NaN"

fun np_arccos :: "npfloat \<Rightarrow> npfloat" where
  "np_arccos (Fin a) = (if - 1 \<le> a \<and> a \<le> 1 then Fin (arccos a) else NaN)"
| "np_arccos _ = NaN"

fun np_arcsin :: "npfloat \<Rightarrow> npfloat" where
  "np_arcsin (Fin a) = (if - 1 \<le> a \<and> a \<le> 1 then Fin (arcsin a) else NaN)"
| "np_arcsin _ = NaN"

definition np_rad2deg :: "npfloat \<Rightarrow> npfloat" where
  "np_rad2deg a = a * Fin (180 / pi)"

text \<open>\<open>np.linalg.norm\<close> of a one-dimensional array: the root of the sum of the squares.\<close>

definition linalg_norm :: "npfloat list \<Rightarrow> npfloat" where
  "linalg_norm xs = np_sqrt (foldl (+) (Fin 0) (map (\<lambda>x. x * x) xs))"

section \<open>Errors and arrays\<close>

text \<open>
  The exceptions the traced code can raise: a division of two Python floats by zero, an
  array allocated with a negative size, and an array row addressed out of range.
\<close>

datatype error = ZeroDivisionError | ValueError | IndexError

text \<open>Division of two Python floats (the attributes of a fiber): zero divisor raises.\<close>

definition py_truediv :: "npfloat \<Rightarrow> npfloat \<Rightarrow> error + npfloat" where
  "py_truediv a b = (if b = Fin 0 then Inl ZeroDivisionError else Inr (a / b))"

type_synonym vec3 = "npfloat \<times> npfloat \<times> npfloat"

text \<open>
  \<open>np.zeros((n, 3))\<close> and the row assignment \<open>A[i] = row\<close> for an index \<open>i \<ge> 0\<close>, which
  raises IndexError outside the array.
\<close>

definition np_zeros :: "nat \<Rightarrow> vec3 list" where
  "np_zeros n = replicate n (Fin 0, Fin 0, Fin 0)"

definition setitem :: "vec3 list \<Rightarrow> nat \<Rightarrow> vec3 \<Rightarrow> error + vec3 list" where
  "setitem A i row = (if i < length A then Inr (A[i := row]) else Inl IndexError)"

definition rad2deg_rows :: "vec3 list \<Rightarrow> vec3 list" where
  "rad2deg_rows A = map (\<lambda>(a, b, c). (np_rad2deg a, np_rad2deg b, np_rad2deg c)) A"

section \<open>The cylindrical fiber (fibers.py)\<close>

record Fiber_cylinder =
  diffusion :: "npfloat option"
  core_r :: npfloat
  clad_r :: npfloat
  core_n :: npfloat
  clad_n :: npfloat
  z_max :: npfloat

text \<open>
  \<open>find_normal\<close>: \<open>-1 * np.array([x, y, 0]) / np.sqrt(x**2 + y**2)\<close>, read left to right.
\<close>

definition find_normal :: "Fiber_cylinder \<Rightarrow> vec3 \<Rightarrow> vec3" where
  "find_normal self intersection_point =
     (case intersection_point of (x, y, _) \<Rightarrow>
        let d = np_sqrt (x * x + y * y)
        in (Fin (- 1) * x / d, Fin (- 1) * y / d, Fin (- 1) * Fin 0 / d))"

section \<open>The ray (ray_cylinder.py)\<close>

record Ray_cylinder =
  azimut :: npfloat
  latitude :: npfloat
  startpoint :: vec3
  vector :: vec3

definition Ray_cylinder_init :: "npfloat \<Rightarrow> npfloat \<Rightarrow> vec3 \<Rightarrow> Ray_cylinder" where
  "Ray_cylinder_init az lat sp =
     \<lparr> azimut = az, latitude = lat, startpoint = sp,
       vector = (np_sin lat * np_cos az, np_sin lat * np_sin az, np_cos lat) \<rparr>"

definition set_values :: "Ray_cylinder \<Rightarrow> npfloat \<Rightarrow> npfloat \<Rightarrow> vec3 \<Rightarrow> Ray_cylinder" where
  "set_values self az lat sp =
     self \<lparr> azimut := az, latitude := lat, startpoint := sp,
            vector := (np_sin lat * np_cos az, np_sin lat * np_sin az, np_cos lat) \<rparr>"

definition calculate_angles_from_vector :: "vec3 \<Rightarrow> npfloat \<times> npfloat" where
  "calculate_angles_from_vector v =
     (case v of (v0, v1, v2) \<Rightarrow>
        let lat = np_arccos v2
        in if np_eq lat (Fin 0) then (Fin 0, Fin 0)
           else
             let c = v0 / linalg_norm [v0, v1];
                 s = v1 / linalg_norm [v0, v1];
                 az = (if Fin 0 < s then np_arccos c else - np_arccos c)
             in (az, lat))"

definition calculate_intersection :: "Ray_cylinder \<Rightarrow> npfloat \<Rightarrow> vec3" where
  "calculate_intersection self core_radius =
     (if np_eq (latitude self) (Fin 0)
      then (fst (startpoint self), fst (snd (startpoint self)), Fin (- 1))
      else
        (case startpoint self of (x0, y0, z0) \<Rightarrow>
          let phi = azimut self; alpha = latitude self; R = core_radius;
              gamma = np_cos phi * x0 + np_sin phi * y0;
              x = x0 + np_cos phi * (- gamma + np_sqrt (gamma * gamma - x0 * x0 - y0 * y0 + R * R));
              y = y0 + np_sin phi * (- gamma + np_sqrt (gamma * gamma - x0 * x0 - y0 * y0 + R * R));
              z = z0 + np_cos alpha / np_sin alpha
                         * (- gamma + np_sqrt (gamma * gamma - x0 * x0 - y0 * y0 + R * R))
          in (x, y, z)))"

text \<open>
  The mirrored direction \<open>-2 * proection + self.vector\<close> that \<open>calculate_reflection\<close>
  builds from \<open>angle = np.dot(normal, self.vector)\<close> and \<open>proection = normal * angle\<close>.
\<close>

definition np_dot :: "vec3 \<Rightarrow> vec3 \<Rightarrow> npfloat" where
  "np_dot a b = (case (a, b) of ((a0, a1, a2), (b0, b1, b2)) \<Rightarrow> a0 * b0 + a1 * b1 + a2 * b2)"

definition reflected_vector :: "vec3 \<Rightarrow> vec3 \<Rightarrow> vec3" where
  "reflected_vector normal v =
     (case (normal, v) of ((n0, n1, n2), (v0, v1, v2)) \<Rightarrow>
        let angle = np_dot normal v;
            proection = (n0 * angle, n1 * angle, n2 * angle)
        in (case proection of (p0, p1, p2) \<Rightarrow>
              (Fin (- 2) * p0 + v0, Fin (- 2) * p1 + v1, Fin (- 2) * p2 + v2)))"

definition calculate_reflection :: "Ray_cylinder \<Rightarrow> vec3 \<Rightarrow> vec3 \<Rightarrow> npfloat \<times> npfloat \<times> npfloat" where
  "calculate_reflection self point normal =
     (let angle = np_dot normal (vector self);
          (az, lat) = calculate_angles_from_vector (reflected_vector normal (vector self))
      in (az, lat, angle))"

section \<open>The trajectory loop\<close>

text \<open>
  \<open>calculate_trajectory\<close> keeps, next to the ray it updates in place, the two arrays
  \<open>Dots\<close> and \<open>Angles\<close> and the local \<open>reflection_angle\<close>, which starts as the ray's
  latitude and then holds the value \<open>np.dot(normal, vector)\<close> of the last reflection.
\<close>

record traj_state =
  ray :: Ray_cylinder
  Dots :: "vec3 list"
  Angles :: "vec3 list"
  reflection_angle :: npfloat

type_synonym traj_result = "vec3 list \<times> vec3 list \<times> int \<times> string"

datatype step = Return traj_result | Continue traj_state

text \<open>
  The random source is a parameter: \<open>rnd i\<close> is the pair of samples of
  \<open>np.random.random()\<close> drawn in iteration \<open>i\<close>, used only when the fiber has a
  diffusion angle. The \<open>output\<close> flag only prints and is left out.
\<close>

definition diffuse :: "npfloat option \<Rightarrow> real \<times> real \<Rightarrow> npfloat \<times> npfloat \<Rightarrow> npfloat \<times> npfloat" where
  "diffuse d r a =
     (case d of
        None \<Rightarrow> a
      | Some dv \<Rightarrow>
          if truthy dv
          then (fst a + (Fin (fst r) - Fin (1 / 2)) * Fin 2 * dv,
                snd a + (Fin (snd r) - Fin (1 / 2)) * Fin 2 * dv)
          else a)"

text \<open>One pass through the body of \<open>for i in range(1, max_reflection)\<close>.\<close>

definition loop_body ::
  "Fiber_cylinder \<Rightarrow> bool \<Rightarrow> (nat \<Rightarrow> real \<times> real) \<Rightarrow> npfloat \<Rightarrow> nat \<Rightarrow> traj_state \<Rightarrow> error + step" where
  "loop_body fiber angle_elimination rnd termination_angle i s =
     (let self = ray s;
          intersection_point = calculate_intersection self (core_r fiber)
      in case intersection_point of (px, py, pz) \<Rightarrow>
        if z_max fiber < pz then
          (case vector self of (v0, v1, v2) \<Rightarrow>
            let intersection_final =
                  (px - v0 / v2 * (pz - z_max fiber),
                   py - v1 / v2 * (pz - z_max fiber),
                   pz - v2 / v2 * (pz - z_max fiber))
            in (case setitem (Dots s) i intersection_final of
                  Inl e \<Rightarrow> Inl e
                | Inr Dots' \<Rightarrow>
                   (case setitem (Angles s) i (azimut self, latitude self, \<bar>reflection_angle s\<bar>) of
                      Inl e \<Rightarrow> Inl e
                    | Inr Angles' \<Rightarrow>
                        Inr (Return (Dots', rad2deg_rows Angles', int i + 1, ''z_max'')))))
        else
          (let normal = find_normal fiber intersection_point
           in case calculate_reflection self intersection_point normal of
             (az0, lat0, reflection_angle') \<Rightarrow>
               (case diffuse (diffusion fiber) (rnd i) (az0, lat0) of (az, lat) \<Rightarrow>
                 (case setitem (Dots s) i intersection_point of
                    Inl e \<Rightarrow> Inl e
                  | Inr Dots' \<Rightarrow>
                     (case setitem (Angles s) i (az, lat, \<bar>reflection_angle'\<bar>) of
                        Inl e \<Rightarrow> Inl e
                      | Inr Angles' \<Rightarrow>
                          if angle_elimination
                             \<and> Fin (pi / 2) - \<bar>reflection_angle'\<bar> < termination_angle
                          then Inr (Return (Dots', rad2deg_rows Angles', int i + 1,
                                            ''reflection_angle''))
                          else Inr (Continue
                                 \<lparr> ray = set_values self az lat intersection_point,
                                   Dots = Dots', Angles = Angles',
                                   reflection_angle = reflection_angle' \<rparr>))))))"

text \<open>
  The loop itself: \<open>n\<close> iterations are left and the next index is \<open>i\<close>. When the range
  is used up the function returns with \<open>max_reflection\<close> as the count.
\<close>

fun for_loop ::
  "Fiber_cylinder \<Rightarrow> bool \<Rightarrow> (nat \<Rightarrow> real \<times> real) \<Rightarrow> npfloat \<Rightarrow> int \<Rightarrow> nat \<Rightarrow> nat \<Rightarrow> traj_state
     \<Rightarrow> error + traj_result" where
  "for_loop fiber ae rnd ta max_reflection 0 i s =
     Inr (Dots s, rad2deg_rows (Angles s), max_reflection, ''max_reflections'')"
| "for_loop fiber ae rnd ta max_reflection (Suc n) i s =
     (case loop_body fiber ae rnd ta i s of
        Inl e \<Rightarrow> Inl e
      | Inr (Return r) \<Rightarrow> Inr r
      | Inr (Continue s') \<Rightarrow> for_loop fiber ae rnd ta max_reflection n (Suc i) s')"


definition calculate_trajectory ::
  "Ray_cylinder \<Rightarrow> Fiber_cylinder \<Rightarrow> int \<Rightarrow> bool \<Rightarrow> (nat \<Rightarrow> real \<times> real) \<Rightarrow> error + traj_result" where
  "calculate_trajectory self fiber max_reflection angle_elimination rnd =
     (case py_truediv (clad_n fiber) (core_n fiber) of
        Inl e \<Rightarrow> Inl e
      | Inr q \<Rightarrow>
          let termination_angle = np_arcsin q
          in if max_reflection < 0 then Inl ValueError
             else
               (case setitem (np_zeros (nat max_reflection)) 0 (startpoint self) of
                  Inl e \<Rightarrow> Inl e
                | Inr Dots0 \<Rightarrow>
                   (case setitem (np_zeros (nat max_reflection)) 0
                           (azimut self, latitude self, Fin 0) of
                      Inl e \<Rightarrow> Inl e
                    | Inr Angles0 \<Rightarrow>
                        for_loop fiber angle_elimination rnd termination_angle max_reflection
                          (nat max_reflection - 1) 1
                          \<lparr> ray = self, Dots = Dots0, Angles = Angles0,
                            reflection_angle = latitude self \<rparr>)))"

text \<open>A random source whose samples are all 0, for runs of fibers without diffusion.\<close>

definition no_random :: "nat \<Rightarrow> real \<times> real" where
  "no_random i = (0, 0)"

text \<open>The Euclidean length of a three-vector, as \<open>np.linalg.norm\<close> computes it.\<close>

definition norm3 :: "vec3 \<Rightarrow> npfloat" where
  "norm3 v = (case v of (a, b, c) \<Rightarrow> linalg_norm [a, b, c])"

section \<open>Basic facts\<close>

lemma Fin_minus [simp]: "Fin a - Fin b = Fin (a - b)"
  by (simp add: minus_npfloat_def)

lemma set_values_init: "set_values self az lat sp = Ray_cylinder_init az lat sp"
  by (simp add: set_values_def Ray_cylinder_init_def)

section \<open>The intersection of an axial ray\<close>

text \<open>
  Claim C9. For every ray state whose zenith (latitude) angle is exactly 0 and every core
  radius, \<open>calculate_intersection\<close> returns the ray's current x and y coordinates with the
  sentinel axial value \<open>-1\<close>; the quadratic is not evaluated, the start point's z and the
  radius play no part in the result.
\<close>

theorem calculate_intersection_axial:
  "latitude self = Fin 0 \<Longrightarrow>
   calculate_intersection self R
     = (fst (startpoint self), fst (snd (startpoint self)), Fin (- 1))"
  by (simp add: calculate_intersection_def np_eq_def)

theorem calculate_intersection_axial_witness:
  "latitude (Ray_cylinder_init (Fin 0) (Fin 0) (Fin 1, Fin 2, Fin 3)) = Fin 0 \<and>
   calculate_intersection (Ray_cylinder_init (Fin 0) (Fin 0) (Fin 1, Fin 2, Fin 3)) (Fin 5)
     = (Fin 1, Fin 2, Fin (- 1))"
  using calculate_intersection_axial
          [of "Ray_cylinder_init (Fin 0) (Fin 0) (Fin 1, Fin 2, Fin 3)" "Fin 5"]
  by (simp add: Ray_cylinder_init_def)

section \<open>The intersection with the core boundary\<close>

lemma larger_root:
  fixes g c u :: real
  assumes "c < 0"
  shows "(- g + sqrt (g * g - c)) * (- g + sqrt (g * g - c)) + 2 * g * (- g + sqrt (g * g - c)) + c = 0"
    and "0 < - g + sqrt (g * g - c)"
    and "u * u + 2 * g * u + c = 0 \<Longrightarrow> u \<le> - g + sqrt (g * g - c)"
proof -
  have D: "0 < g * g - c" using assms zero_le_square [of g] by linarith
  have sq: "sqrt (g * g - c) * sqrt (g * g - c) = g * g - c"
    using D by simp
  show "(- g + sqrt (g * g - c)) * (- g + sqrt (g * g - c)) + 2 * g * (- g + sqrt (g * g - c)) + c = 0"
    using sq by (simp add: algebra_simps)
  have "sqrt (g * g) < sqrt (g * g - c)"
    using assms by (intro real_sqrt_less_mono) linarith
  then have abs: "\<bar>g\<bar> < sqrt (g * g - c)" by simp
  then show "0 < - g + sqrt (g * g - c)" by linarith
  assume "u * u + 2 * g * u + c = 0"
  then have "(u + g) * (u + g) = g * g - c" by (simp add: algebra_simps)
  then have "sqrt ((u + g) * (u + g)) = sqrt (g * g - c)" by simp
  then have "\<bar>u + g\<bar> = sqrt (g * g - c)" by simp
  then show "u \<le> - g + sqrt (g * g - c)" by linarith
qed

lemma on_circle:
  fixes x0 y0 r p s :: real
  assumes "s * s + 2 * (cos p * x0 + sin p * y0) * s + (x0 * x0 + y0 * y0 - r * r) = 0"
  shows "(x0 + cos p * s) * (x0 + cos p * s) + (y0 + sin p * s) * (y0 + sin p * s) = r * r"
proof -
  have cs: "cos p * cos p + sin p * sin p = 1"
    using sin_cos_squared_add2 [of p] by (simp add: power2_eq_square)
  show ?thesis using assms cs by algebra
qed

lemma calculate_intersection_Fin:
  assumes "azimut self = Fin p" "latitude self = Fin a" "startpoint self = (Fin x0, Fin y0, Fin z0)"
    and "a \<noteq> 0" "sin a \<noteq> 0" "x0 * x0 + y0 * y0 \<le> r * r"
  shows "calculate_intersection self (Fin r) =
     (let g = cos p * x0 + sin p * y0; s = - g + sqrt (g * g - (x0 * x0 + y0 * y0 - r * r))
      in (Fin (x0 + cos p * s), Fin (y0 + sin p * s), Fin (z0 + cos a / sin a * s)))"
proof -
  have "0 \<le> (cos p * x0 + sin p * y0) * (cos p * x0 + sin p * y0) - x0 * x0 - y0 * y0 + r * r"
    using assms(6) zero_le_square [of "cos p * x0 + sin p * y0"] by linarith
  then have nn: "\<not> (cos p * x0 + sin p * y0) * (cos p * x0 + sin p * y0) - x0 * x0 - y0 * y0 + r * r < 0"
    by linarith
  have eq: "(cos p * x0 + sin p * y0) * (cos p * x0 + sin p * y0) - (x0 * x0 + y0 * y0 - r * r)
     = (cos p * x0 + sin p * y0) * (cos p * x0 + sin p * y0) - x0 * x0 - y0 * y0 + r * r"
    by simp
  show ?thesis
    unfolding calculate_intersection_def Let_def eq
    using assms(4,5) nn by (simp add: assms(1,2,3) np_eq_def)
qed



section \<open>Mirror reflection\<close>


lemma sqrt_Fin_cases: "np_sqrt x = Fin r \<Longrightarrow> \<exists>a. x = Fin a \<and> 0 \<le> a \<and> r = sqrt a"
  by (cases x) (auto split: if_splits)

lemma plus_Fin_cases: "x + y = Fin r \<Longrightarrow> \<exists>a b. x = Fin a \<and> y = Fin b"
  by (cases x; cases y) auto

lemma times_self_Fin_cases: "x * x = Fin r \<Longrightarrow> \<exists>a. x = Fin a"
  by (cases x) (auto simp: inf_of_sign_def)

lemma norm3_Fin_cases:
  assumes "norm3 (a, b, c) = Fin r"
  shows "\<exists>a' b' c'. a = Fin a' \<and> b = Fin b' \<and> c = Fin c'"
proof -
  from assms obtain q where "Fin 0 + a * a + b * b + c * c = Fin q"
    by (auto simp: norm3_def linalg_norm_def dest: sqrt_Fin_cases)
  then obtain q1 q2 where 1: "Fin 0 + a * a + b * b = Fin q1" and 2: "c * c = Fin q2"
    by (blast dest: plus_Fin_cases)
  from 1 obtain q3 q4 where 3: "Fin 0 + a * a = Fin q3" and 4: "b * b = Fin q4"
    by (blast dest: plus_Fin_cases)
  from 3 obtain q5 q6 where 5: "a * a = Fin q6"
    by (blast dest: plus_Fin_cases)
  show ?thesis using 2 4 5 by (blast dest: times_self_Fin_cases)
qed

lemma norm3_Fin [simp]:
  "norm3 (Fin a, Fin b, Fin c) = Fin (sqrt (a * a + b * b + c * c))"
proof -
  have "\<not> a * a + b * b + c * c < 0"
    using zero_le_square [of a] zero_le_square [of b] zero_le_square [of c] by linarith
  then show ?thesis by (simp add: norm3_def linalg_norm_def)
qed

lemma reflected_vector_Fin:
  "reflected_vector (Fin n0, Fin n1, Fin n2) (Fin v0, Fin v1, Fin v2) =
     (let d = n0 * v0 + n1 * v1 + n2 * v2
      in (Fin (- 2 * (n0 * d) + v0), Fin (- 2 * (n1 * d) + v1), Fin (- 2 * (n2 * d) + v2)))"
  by (simp add: reflected_vector_def np_dot_def Let_def)

lemma mirror_square:
  fixes n0 n1 n2 v0 v1 v2 :: real
  assumes "n0 * n0 + n1 * n1 + n2 * n2 = 1"
  shows "(- 2 * (n0 * (n0 * v0 + n1 * v1 + n2 * v2)) + v0) * (- 2 * (n0 * (n0 * v0 + n1 * v1 + n2 * v2)) + v0)
       + (- 2 * (n1 * (n0 * v0 + n1 * v1 + n2 * v2)) + v1) * (- 2 * (n1 * (n0 * v0 + n1 * v1 + n2 * v2)) + v1)
       + (- 2 * (n2 * (n0 * v0 + n1 * v1 + n2 * v2)) + v2) * (- 2 * (n2 * (n0 * v0 + n1 * v1 + n2 * v2)) + v2)
       = v0 * v0 + v1 * v1 + v2 * v2"
  using assms by algebra

text \<open>
  Claim C8. For every unit incident vector \<open>v\<close> and unit normal \<open>n\<close>, the mirrored vector
  \<open>v - 2 (v \<sqdot> n) n\<close> that \<open>calculate_reflection\<close> computes has the norm of the incident
  vector. (A norm equal to the finite value 1 forces all components to be finite.)
\<close>

theorem reflection_preserves_norm:
  assumes "norm3 normal = Fin 1" and "norm3 v = Fin 1"
  shows "norm3 (reflected_vector normal v) = norm3 v"
proof -
  obtain a b c where n: "normal = (a, b, c)" by (cases normal) auto
  obtain d e f where v: "v = (d, e, f)" by (cases v) auto
  from assms(1) n obtain n0 n1 n2 where nf: "normal = (Fin n0, Fin n1, Fin n2)"
    using norm3_Fin_cases [of a b c 1] by auto
  from assms(2) v obtain v0 v1 v2 where vf: "v = (Fin v0, Fin v1, Fin v2)"
    using norm3_Fin_cases [of d e f 1] by auto
  have "sqrt (n0 * n0 + n1 * n1 + n2 * n2) = 1"
    using assms(1) by (simp add: nf)
  then have unit: "n0 * n0 + n1 * n1 + n2 * n2 = 1"
    using real_sqrt_eq_1_iff by blast
  show ?thesis
    unfolding nf vf reflected_vector_Fin Let_def norm3_Fin
    using mirror_square [OF unit, of v0 v1 v2] by simp
qed

theorem reflection_preserves_norm_witness:
  "norm3 (Fin (- 1), Fin 0, Fin 0) = Fin 1 \<and> norm3 (Fin (3 / 5), Fin 0, Fin (4 / 5)) = Fin 1
   \<and> norm3 (reflected_vector (Fin (- 1), Fin 0, Fin 0) (Fin (3 / 5), Fin 0, Fin (4 / 5)))
       = norm3 (Fin (3 / 5), Fin 0, Fin (4 / 5))"
proof -
  have h1: "norm3 (Fin (- 1), Fin 0, Fin 0) = Fin 1" by simp
  have "(3 / 5 * (3 / 5) + 4 / 5 * (4 / 5) :: real) = 1" by simp
  then have h2: "norm3 (Fin (3 / 5), Fin 0, Fin (4 / 5)) = Fin 1" by simp
  show ?thesis using h1 h2 reflection_preserves_norm [OF h1 h2] by simp
qed

lemma calculate_reflection_uses_reflected_vector:
  "calculate_reflection self point normal =
     (fst (calculate_angles_from_vector (reflected_vector normal (vector self))),
      snd (calculate_angles_from_vector (reflected_vector normal (vector self))),
      np_dot normal (vector self))"
  by (simp add: calculate_reflection_def Let_def split: prod.splits)

section \<open>Angles from a direction vector\<close>

lemma transverse_norm:
  fixes lat az :: real
  assumes "0 < sin lat"
  shows "sqrt (sin lat * cos az * (sin lat * cos az) + sin lat * sin az * (sin lat * sin az)) = sin lat"
proof -
  have cs: "cos az * cos az + sin az * sin az = 1"
    using sin_cos_squared_add2 [of az] by (simp add: power2_eq_square)
  have "sin lat * cos az * (sin lat * cos az) + sin lat * sin az * (sin lat * sin az)
        = sin lat * sin lat"
    using cs by algebra
  then show ?thesis using assms by simp
qed

lemma angles_of_direction:
  assumes "0 < lat" and "lat < pi / 2"
  shows "calculate_angles_from_vector (Fin (sin lat * cos az), Fin (sin lat * sin az), Fin (cos lat))
       = (Fin (if 0 < sin az then arccos (cos az) else - arccos (cos az)), Fin lat)"
proof -
  have sl: "0 < sin lat"
    using assms by (intro sin_gt_zero) (use pi_gt_zero in linarith)+
  have ac: "arccos (cos lat) = lat"
    using assms by (intro arccos_cos) (use pi_gt_zero in linarith)+
  have nn: "\<not> sin lat * cos az * (sin lat * cos az) + sin lat * sin az * (sin lat * sin az) < 0"
    using zero_le_square [of "sin lat * cos az"] zero_le_square [of "sin lat * sin az"] by linarith
  have nrm: "linalg_norm [Fin (sin lat * cos az), Fin (sin lat * sin az)] = Fin (sin lat)"
    using nn transverse_norm [OF sl, of az] by (simp add: linalg_norm_def)
  have pos: "(0 < sin lat * sin az / sin lat) = (0 < sin az)"
    using sl by simp
  show ?thesis
    unfolding calculate_angles_from_vector_def
    using sl assms(1) by (simp add: nrm ac np_eq_def Let_def)
qed

lemma azimut_principal:
  assumes "- pi \<le> az" and "az < pi"
  shows "(if 0 < sin az then arccos (cos az) else - arccos (cos az)) = az"
proof (cases "0 < az")
  case True
  then have "0 < sin az" using assms by (intro sin_gt_zero) auto
  moreover have "arccos (cos az) = az" using True assms by (intro arccos_cos) auto
  ultimately show ?thesis by simp
next
  case False
  then have "0 \<le> - az" "- az \<le> pi" using assms by auto
  then have "0 \<le> sin (- az)" by (intro sin_ge_zero) auto
  then have "\<not> 0 < sin az" by simp
  moreover have "arccos (cos (- az)) = - az"
    using \<open>0 \<le> - az\<close> \<open>- az \<le> pi\<close> by (intro arccos_cos) auto
  ultimately show ?thesis by simp
qed

text \<open>
  Claim C7, as amended. For every azimuth \<open>az\<close> with \<open>-\<pi> \<le> az < \<pi>\<close> and every zenith
  \<open>lat\<close> with \<open>0.001 \<le> lat < \<pi>/2\<close>, \<open>calculate_angles_from_vector\<close> applied to the
  direction vector that \<open>set_values\<close> derives recovers \<open>(az, lat)\<close>: exactly in real
  arithmetic, which is what is proved here, and up to rounding in double precision. At
  \<open>lat = 0\<close> it returns azimuth 0 and zenith 0, whatever the azimuth was. The lower bound on
  the zenith keeps the double value of \<open>cos lat\<close> below 1, so that the program does not take
  the \<open>latitude == 0\<close> branch for a zenith that is small but not zero.
\<close>

theorem angles_from_vector_left_inverse:
  "(- pi \<le> az \<and> az < pi \<and> 1 / 1000 \<le> lat \<and> lat < pi / 2 \<longrightarrow>
      calculate_angles_from_vector (vector (set_values self (Fin az) (Fin lat) sp))
        = (Fin az, Fin lat))
   \<and> calculate_angles_from_vector (vector (set_values self (Fin az) (Fin 0) sp))
        = (Fin 0, Fin 0)"
proof (intro conjI impI)
  assume h: "- pi \<le> az \<and> az < pi \<and> 1 / 1000 \<le> lat \<and> lat < pi / 2"
  then have "0 < lat" by linarith
  then show "calculate_angles_from_vector (vector (set_values self (Fin az) (Fin lat) sp))
        = (Fin az, Fin lat)"
    using h angles_of_direction [of lat az] azimut_principal [of az]
    by (simp add: set_values_def)
next
  show "calculate_angles_from_vector (vector (set_values self (Fin az) (Fin 0) sp))
        = (Fin 0, Fin 0)"
    by (simp add: set_values_def calculate_angles_from_vector_def np_eq_def Let_def)
qed

theorem angles_from_vector_left_inverse_witness:
  "- pi \<le> pi / 3 \<and> pi / 3 < pi \<and> 1 / 1000 \<le> pi / 4 \<and> pi / 4 < pi / 2
   \<and> calculate_angles_from_vector
        (vector (set_values (Ray_cylinder_init (Fin 0) (Fin 0) (Fin 0, Fin 0, Fin 0))
                   (Fin (pi / 3)) (Fin (pi / 4)) (Fin 0, Fin 0, Fin 0)))
        = (Fin (pi / 3), Fin (pi / 4))"
proof -
  have h: "- pi \<le> pi / 3 \<and> pi / 3 < pi \<and> 1 / 1000 \<le> pi / 4 \<and> pi / 4 < pi / 2"
    using pi_ge_two by simp
  show ?thesis
    using h angles_from_vector_left_inverse
            [of "pi / 3" "pi / 4" "Ray_cylinder_init (Fin 0) (Fin 0) (Fin 0, Fin 0, Fin 0)"
                "(Fin 0, Fin 0, Fin 0)"]
    by blast
qed

text \<open>
  The claim as stated, for every azimuth, fails: \<open>arccos\<close> returns the principal value,
  so the azimuth \<open>3\<pi>/2\<close> (270 degrees, inside the range \<open>generate_angles\<close> samples) comes
  back as \<open>-\<pi>/2\<close>.
\<close>

theorem angles_from_vector_azimut_counterexample:
  "calculate_angles_from_vector
     (vector (set_values (Ray_cylinder_init (Fin 0) (Fin 0) (Fin 0, Fin 0, Fin 0))
                (Fin (3 / 2 * pi)) (Fin (pi / 4)) (Fin 0, Fin 0, Fin 0)))
     = (Fin (- (pi / 2)), Fin (pi / 4))
   \<and> Fin (- (pi / 2)) \<noteq> Fin (3 / 2 * pi)"
proof -
  have s3: "sin (3 * pi / 2) = - 1" using sin_3over2_pi by simp
  have c3: "cos (3 * pi / 2) = 0" using cos_3over2_pi by simp
  have "(0::real) < pi / 4" "pi / 4 < pi / 2" using pi_gt_zero by simp_all
  from angles_of_direction [OF this, of "3 / 2 * pi"]
  have "calculate_angles_from_vector
     (vector (set_values (Ray_cylinder_init (Fin 0) (Fin 0) (Fin 0, Fin 0, Fin 0))
                (Fin (3 / 2 * pi)) (Fin (pi / 4)) (Fin 0, Fin 0, Fin 0)))
     = (Fin (- (pi / 2)), Fin (pi / 4))"
    by (simp add: set_values_def s3 c3)
  moreover have "- (pi / 2) \<noteq> 3 / 2 * pi" using pi_gt_zero by simp
  ultimately show ?thesis by simp
qed

section \<open>The trajectory loop: outcomes and array bounds\<close>

lemma loop_body_unfold:
  "loop_body fiber ae rnd ta i s =
     (let P = calculate_intersection (ray s) (core_r fiber);
          v = vector (ray s);
          R = calculate_reflection (ray s) P (find_normal fiber P);
          ad = diffuse (diffusion fiber) (rnd i) (fst R, fst (snd R))
      in if i < length (Dots s) \<and> i < length (Angles s) then
           if z_max fiber < snd (snd P) then
             Inr (Return
               ((Dots s)[i := (fst P - fst v / snd (snd v) * (snd (snd P) - z_max fiber),
                               fst (snd P) - fst (snd v) / snd (snd v) * (snd (snd P) - z_max fiber),
                               snd (snd P) - snd (snd v) / snd (snd v) * (snd (snd P) - z_max fiber))],
                rad2deg_rows ((Angles s)[i := (azimut (ray s), latitude (ray s), \<bar>reflection_angle s\<bar>)]),
                int i + 1, ''z_max''))
           else if ae \<and> Fin (pi / 2) - \<bar>snd (snd R)\<bar> < ta then
             Inr (Return
               ((Dots s)[i := P],
                rad2deg_rows ((Angles s)[i := (fst ad, snd ad, \<bar>snd (snd R)\<bar>)]),
                int i + 1, ''reflection_angle''))
           else
             Inr (Continue
               \<lparr> ray = set_values (ray s) (fst ad) (snd ad) P,
                 Dots = (Dots s)[i := P],
                 Angles = (Angles s)[i := (fst ad, snd ad, \<bar>snd (snd R)\<bar>)],
                 reflection_angle = snd (snd R) \<rparr>)
         else Inl IndexError)"
  by (simp add: loop_body_def setitem_def Let_def split: prod.splits)

lemma loop_body_error:
  "loop_body fiber ae rnd ta i s = Inl e \<Longrightarrow>
     e = IndexError \<and> \<not> (i < length (Dots s) \<and> i < length (Angles s))"
  by (simp add: loop_body_unfold Let_def split: if_splits)

lemma loop_body_in_range:
  "i < length (Dots s) \<Longrightarrow> i < length (Angles s) \<Longrightarrow> loop_body fiber ae rnd ta i s \<noteq> Inl e"
  using loop_body_error by blast

lemma loop_body_return:
  "loop_body fiber ae rnd ta i s = Inr (Return (D, A, c, r)) \<Longrightarrow>
     c = int i + 1 \<and> (r = ''z_max'' \<or> r = ''reflection_angle'')"
  by (simp add: loop_body_unfold Let_def split: if_splits)

lemma loop_body_continue:
  "loop_body fiber ae rnd ta i s = Inr (Continue s') \<Longrightarrow>
     length (Dots s') = length (Dots s) \<and> length (Angles s') = length (Angles s)"
  by (auto simp add: loop_body_unfold Let_def split: if_splits)

lemma for_loop_outcome:
  "i + n \<le> length (Dots s) \<Longrightarrow> i + n \<le> length (Angles s) \<Longrightarrow>
   \<exists>D A c r. for_loop fiber ae rnd ta mr n i s = Inr (D, A, c, r)
     \<and> (r = ''max_reflections'' \<and> c = mr
        \<or> (r = ''z_max'' \<or> r = ''reflection_angle'')
           \<and> (\<exists>j s'. i \<le> j \<and> j < i + n \<and> c = int j + 1
                 \<and> loop_body fiber ae rnd ta j s' = Inr (Return (D, A, c, r))))"
proof (induction n arbitrary: i s)
  case 0
  show ?case by simp
next
  case (Suc n)
  have rng: "i < length (Dots s)" "i < length (Angles s)" using Suc.prems by simp_all
  show ?case
  proof (cases "loop_body fiber ae rnd ta i s")
    case (Inl e)
    then show ?thesis using loop_body_in_range [OF rng] by blast
  next
    case (Inr st)
    show ?thesis
    proof (cases st)
      case (Return res)
      obtain D A c r where res: "res = (D, A, c, r)" by (cases res) auto
      have lb: "loop_body fiber ae rnd ta i s = Inr (Return (D, A, c, r))"
        using Inr Return res by simp
      from loop_body_return [OF lb]
      have cr: "c = int i + 1" "r = ''z_max'' \<or> r = ''reflection_angle''" by simp_all
      have "for_loop fiber ae rnd ta mr (Suc n) i s = Inr (D, A, c, r)"
        using lb by simp
      moreover have "\<exists>j s'. i \<le> j \<and> j < i + Suc n \<and> c = int j + 1
                 \<and> loop_body fiber ae rnd ta j s' = Inr (Return (D, A, c, r))"
        using lb cr(1) by (intro exI [of _ i] exI [of _ s]) simp
      ultimately show ?thesis using cr(2) by blast
    next
      case (Continue s')
      from loop_body_continue [of fiber ae rnd ta i s s'] Inr Continue
      have len: "length (Dots s') = length (Dots s)" "length (Angles s') = length (Angles s)"
        by simp_all
      have "Suc i + n \<le> length (Dots s')" "Suc i + n \<le> length (Angles s')"
        using Suc.prems len by simp_all
      from Suc.IH [OF this]
      obtain D A c r where fl: "for_loop fiber ae rnd ta mr n (Suc i) s' = Inr (D, A, c, r)"
        and out: "r = ''max_reflections'' \<and> c = mr
          \<or> (r = ''z_max'' \<or> r = ''reflection_angle'')
           \<and> (\<exists>j s''. Suc i \<le> j \<and> j < Suc i + n \<and> c = int j + 1
                 \<and> loop_body fiber ae rnd ta j s'' = Inr (Return (D, A, c, r)))"
        by blast
      have "for_loop fiber ae rnd ta mr (Suc n) i s = Inr (D, A, c, r)"
        using Inr Continue fl by simp
      moreover have "r = ''max_reflections'' \<and> c = mr
          \<or> (r = ''z_max'' \<or> r = ''reflection_angle'')
           \<and> (\<exists>j s''. i \<le> j \<and> j < i + Suc n \<and> c = int j + 1
                 \<and> loop_body fiber ae rnd ta j s'' = Inr (Return (D, A, c, r)))"
      proof (rule disjE [OF out])
        assume "r = ''max_reflections'' \<and> c = mr"
        then show ?thesis by simp
      next
        assume a: "(r = ''z_max'' \<or> r = ''reflection_angle'')
           \<and> (\<exists>j s''. Suc i \<le> j \<and> j < Suc i + n \<and> c = int j + 1
                 \<and> loop_body fiber ae rnd ta j s'' = Inr (Return (D, A, c, r)))"
        then obtain j s'' where j: "Suc i \<le> j" "j < Suc i + n" "c = int j + 1"
          "loop_body fiber ae rnd ta j s'' = Inr (Return (D, A, c, r))"
          by blast
        have "i \<le> j" "j < i + Suc n" using j(1,2) by simp_all
        then have "\<exists>j s''. i \<le> j \<and> j < i + Suc n \<and> c = int j + 1
                 \<and> loop_body fiber ae rnd ta j s'' = Inr (Return (D, A, c, r))"
          using j(3,4) by blast
        then show ?thesis using a by blast
      qed
      ultimately show ?thesis by blast
    qed
  qed
qed

lemma calculate_trajectory_unfold:
  assumes "core_n fiber \<noteq> Fin 0" and "1 \<le> mr"
  shows "calculate_trajectory self fiber mr ae rnd =
     for_loop fiber ae rnd (np_arcsin (clad_n fiber / core_n fiber)) mr (nat mr - 1) 1
       \<lparr> ray = self, Dots = (np_zeros (nat mr))[0 := startpoint self],
         Angles = (np_zeros (nat mr))[0 := (azimut self, latitude self, Fin 0)],
         reflection_angle = latitude self \<rparr>"
  using assms
  by (simp add: calculate_trajectory_def py_truediv_def setitem_def np_zeros_def Let_def)

lemma calculate_trajectory_outcome:
  assumes "core_n fiber \<noteq> Fin 0" and "1 \<le> mr"
  shows "\<exists>D A c r. calculate_trajectory self fiber mr ae rnd = Inr (D, A, c, r)
     \<and> (r = ''max_reflections'' \<and> c = mr
        \<or> (r = ''z_max'' \<or> r = ''reflection_angle'')
           \<and> (\<exists>j s'. 1 \<le> j \<and> int j < mr \<and> c = int j + 1
                 \<and> loop_body fiber ae rnd (np_arcsin (clad_n fiber / core_n fiber)) j s'
                       = Inr (Return (D, A, c, r))))"
proof -
  let ?s = "\<lparr> ray = self, Dots = (np_zeros (nat mr))[0 := startpoint self],
         Angles = (np_zeros (nat mr))[0 := (azimut self, latitude self, Fin 0)],
         reflection_angle = latitude self \<rparr>"
  have eq: "1 + (nat mr - 1) = nat mr" using assms(2) by simp
  have "1 + (nat mr - 1) \<le> length (Dots ?s)" "1 + (nat mr - 1) \<le> length (Angles ?s)"
    using assms(2) by (simp_all add: np_zeros_def)
  from for_loop_outcome [OF this, of fiber ae rnd "np_arcsin (clad_n fiber / core_n fiber)" mr]
  obtain D A c r where fl: "calculate_trajectory self fiber mr ae rnd = Inr (D, A, c, r)"
    and out: "r = ''max_reflections'' \<and> c = mr
        \<or> (r = ''z_max'' \<or> r = ''reflection_angle'')
           \<and> (\<exists>j s'. 1 \<le> j \<and> j < nat mr \<and> c = int j + 1
                 \<and> loop_body fiber ae rnd (np_arcsin (clad_n fiber / core_n fiber)) j s'
                       = Inr (Return (D, A, c, r)))"
    unfolding calculate_trajectory_unfold [OF assms] eq by blast
  have "r = ''max_reflections'' \<and> c = mr
        \<or> (r = ''z_max'' \<or> r = ''reflection_angle'')
           \<and> (\<exists>j s'. 1 \<le> j \<and> int j < mr \<and> c = int j + 1
                 \<and> loop_body fiber ae rnd (np_arcsin (clad_n fiber / core_n fiber)) j s'
                       = Inr (Return (D, A, c, r)))"
  proof (rule disjE [OF out])
    assume "r = ''max_reflections'' \<and> c = mr"
    then show ?thesis by simp
  next
    assume a: "(r = ''z_max'' \<or> r = ''reflection_angle'')
           \<and> (\<exists>j s'. 1 \<le> j \<and> j < nat mr \<and> c = int j + 1
                 \<and> loop_body fiber ae rnd (np_arcsin (clad_n fiber / core_n fiber)) j s'
                       = Inr (Return (D, A, c, r)))"
    then obtain j s' where j: "1 \<le> j" "j < nat mr" "c = int j + 1"
      "loop_body fiber ae rnd (np_arcsin (clad_n fiber / core_n fiber)) j s'
         = Inr (Return (D, A, c, r))"
      by blast
    have "int j < mr" using j(2) by linarith
    then have "\<exists>j s'. 1 \<le> j \<and> int j < mr \<and> c = int j + 1
                 \<and> loop_body fiber ae rnd (np_arcsin (clad_n fiber / core_n fiber)) j s'
                       = Inr (Return (D, A, c, r))"
      using j(1,3,4) by blast
    then show ?thesis using a by blast
  qed
  then show ?thesis using fl by blast
qed

text \<open>
  Claim C10. For every call of \<open>calculate_trajectory\<close> with \<open>max_reflection \<ge> 1\<close>, every
  index used on \<open>Dots\<close> and \<open>Angles\<close> lies inside the arrays: each row assignment of the
  model is checked against the array's length, and no IndexError arises. The bound on
  \<open>max_reflection\<close> is needed: with \<open>max_reflection = 0\<close> the write of the start point at
  index 0 is out of bounds (it is reached whenever the division \<open>clad_n / core_n\<close> before
  it does not raise).
\<close>

theorem trajectory_indices_in_range:
  "(1 \<le> max_reflection \<longrightarrow>
      calculate_trajectory self fiber max_reflection ae rnd \<noteq> Inl IndexError)
   \<and> (core_n fiber \<noteq> Fin 0 \<longrightarrow>
      calculate_trajectory self fiber 0 ae rnd = Inl IndexError)"
proof (intro conjI impI)
  assume mr: "1 \<le> max_reflection"
  show "calculate_trajectory self fiber max_reflection ae rnd \<noteq> Inl IndexError"
  proof (cases "core_n fiber = Fin 0")
    case True
    then show ?thesis by (simp add: calculate_trajectory_def py_truediv_def)
  next
    case False
    from calculate_trajectory_outcome [OF False mr, of self ae rnd]
    show ?thesis by auto
  qed
next
  assume "core_n fiber \<noteq> Fin 0"
  then show "calculate_trajectory self fiber 0 ae rnd = Inl IndexError"
    by (simp add: calculate_trajectory_def py_truediv_def setitem_def np_zeros_def Let_def)
qed

theorem trajectory_indices_in_range_witness:
  "(1 \<le> (3::int) \<and>
      calculate_trajectory (Ray_cylinder_init (Fin 0) (Fin 0) (Fin 1, Fin 0, Fin 0))
        \<lparr> diffusion = None, core_r = Fin 2, clad_r = Fin 3, core_n = Fin 2, clad_n = Fin 1,
          z_max = Fin 10 \<rparr> 3 True no_random \<noteq> Inl IndexError)
   \<and> (core_n \<lparr> diffusion = None, core_r = Fin 2, clad_r = Fin 3, core_n = Fin 2,
               clad_n = Fin 1, z_max = Fin 10 \<rparr> \<noteq> Fin 0 \<and>
      calculate_trajectory (Ray_cylinder_init (Fin 0) (Fin 0) (Fin 1, Fin 0, Fin 0))
        \<lparr> diffusion = None, core_r = Fin 2, clad_r = Fin 3, core_n = Fin 2, clad_n = Fin 1,
          z_max = Fin 10 \<rparr> 0 True no_random = Inl IndexError)"
  using trajectory_indices_in_range
          [of 3 "Ray_cylinder_init (Fin 0) (Fin 0) (Fin 1, Fin 0, Fin 0)"
              "\<lparr> diffusion = None, core_r = Fin 2, clad_r = Fin 3, core_n = Fin 2,
                 clad_n = Fin 1, z_max = Fin 10 \<rparr>" True no_random]
  by simp

section \<open>Non-finite values and a worked intersection\<close>

lemma nan_absorbs [simp]:
  "x + NaN = NaN" "NaN + x = NaN" "x * NaN = NaN" "NaN * x = NaN"
  "x - NaN = NaN" "NaN - x = NaN" "x / NaN = NaN" "NaN / x = NaN"
  "\<not> x < NaN" "\<not> NaN < x"
  by (cases x; simp add: minus_npfloat_def)+

lemma example_intersection:
  "calculate_intersection (Ray_cylinder_init (Fin 0) (Fin (pi / 4)) (Fin 0, Fin 0, Fin 0)) (Fin 1)
     = (Fin 1, Fin 0, Fin 1)"
proof -
  have "pi / 4 \<noteq> 0" using pi_gt_zero by simp
  moreover have "sin (pi / 4) \<noteq> 0" by (simp add: sin_45)
  ultimately show ?thesis
    using calculate_intersection_Fin
      [of "Ray_cylinder_init (Fin 0) (Fin (pi / 4)) (Fin 0, Fin 0, Fin 0)" 0 "pi / 4" 0 0 0 1]
    by (simp add: Ray_cylinder_init_def sin_45 cos_45)
qed

lemma arcsin_half_bound: "\<not> pi / 2 < arcsin (1 / 2)"
  using arcsin_bounded [of "1 / 2"] by simp

section \<open>Reaching the end of the fiber\<close>


section \<open>Equal refractive indices\<close>

lemma first_incidence:
  assumes "0 < a" and "a < pi / 2" and "x0\<^sup>2 + y0\<^sup>2 < R\<^sup>2"
  shows "\<exists>px py pz d.
           calculate_intersection (Ray_cylinder_init (Fin p) (Fin a) (Fin x0, Fin y0, Fin z0)) (Fin R)
             = (Fin px, Fin py, Fin pz)
         \<and> np_dot (find_normal fiber (Fin px, Fin py, Fin pz))
                  (vector (Ray_cylinder_init (Fin p) (Fin a) (Fin x0, Fin y0, Fin z0))) = Fin d
         \<and> d \<noteq> 0"
proof -
  let ?ray = "Ray_cylinder_init (Fin p) (Fin a) (Fin x0, Fin y0, Fin z0)"
  define g where "g = cos p * x0 + sin p * y0"
  define c where "c = x0 * x0 + y0 * y0 - R * R"
  define s where "s = - g + sqrt (g * g - c)"
  define x where "x = x0 + cos p * s"
  define y where "y = y0 + sin p * s"
  define w where "w = x * cos p + y * sin p"
  have c: "c < 0" using assms(3) by (simp add: c_def power2_eq_square)
  have sa: "0 < sin a" using assms(1,2) by (intro sin_gt_zero) (use pi_gt_zero in linarith)+
  have root: "s * s + 2 * g * s + c = 0"
    unfolding s_def by (rule larger_root(1) [OF c])
  have pos: "0 < s"
    unfolding s_def by (rule larger_root(2) [OF c])
  have D: "0 < g * g - c" using c zero_le_square [of g] by linarith
  have ci: "calculate_intersection ?ray (Fin R) = (Fin x, Fin y, Fin (z0 + cos a / sin a * s))"
    using calculate_intersection_Fin [of ?ray p a x0 y0 z0 R] assms(1) sa c
    by (simp add: Let_def g_def c_def s_def x_def y_def Ray_cylinder_init_def)
  have circ: "x * x + y * y = R * R"
    unfolding x_def y_def
    using on_circle [of s p x0 y0 R] root by (simp add: g_def c_def)
  have "0 \<le> x0 * x0 + y0 * y0" using zero_le_square [of x0] zero_le_square [of y0] by linarith
  then have RR: "0 < R * R" using c unfolding c_def by linarith
  then have R0: "R \<noteq> 0" by auto
  have nrm: "sqrt (x * x + y * y) = \<bar>R\<bar>" unfolding circ by simp
  have nn: "\<not> x * x + y * y < 0" unfolding circ using RR by simp
  have fnorm: "find_normal fiber (Fin x, Fin y, zz)
          = (Fin (- x / \<bar>R\<bar>), Fin (- y / \<bar>R\<bar>), Fin 0)" for zz
    using nn R0 by (simp add: find_normal_def nrm)
  have vec: "vector ?ray = (Fin (sin a * cos p), Fin (sin a * sin p), Fin (cos a))"
    by (simp add: Ray_cylinder_init_def)
  have cs: "cos p * cos p + sin p * sin p = 1"
    using sin_cos_squared_add2 [of p] by (simp add: power2_eq_square)
  have "w = g + s" unfolding w_def x_def y_def g_def using cs by algebra
  then have w: "0 < w" unfolding s_def using D by simp
  have dot: "np_dot (find_normal fiber (Fin x, Fin y, Fin (z0 + cos a / sin a * s))) (vector ?ray)
      = Fin (- x / \<bar>R\<bar> * (sin a * cos p) + - y / \<bar>R\<bar> * (sin a * sin p) + 0 * cos a)"
    by (simp add: fnorm vec np_dot_def)
  have "- x / \<bar>R\<bar> * (sin a * cos p) + - y / \<bar>R\<bar> * (sin a * sin p) + 0 * cos a
        = - (sin a * w) / \<bar>R\<bar>"
    using R0 by (simp add: w_def field_simps)
  moreover have "- (sin a * w) / \<bar>R\<bar> \<noteq> 0" using sa w R0 by simp
  ultimately have "- x / \<bar>R\<bar> * (sin a * cos p) + - y / \<bar>R\<bar> * (sin a * sin p) + 0 * cos a \<noteq> 0"
    by simp
  then show ?thesis using ci dot by blast
qed

lemma first_reflection_terminates:
  assumes "clad_n fiber = core_n fiber" and "core_n fiber = Fin n" and "n \<noteq> 0"
    and "core_r fiber = Fin R"
    and "0 < a" and "a < pi / 2" and "x0\<^sup>2 + y0\<^sup>2 < R\<^sup>2"
    and "2 \<le> max_reflection"
    and "\<not> z_max fiber
          < snd (snd (calculate_intersection
                        (Ray_cylinder_init (Fin p) (Fin a) (Fin x0, Fin y0, Fin z0)) (Fin R)))"
  shows "\<exists>D A. calculate_trajectory (Ray_cylinder_init (Fin p) (Fin a) (Fin x0, Fin y0, Fin z0))
                 fiber max_reflection True rnd
               = Inr (D, A, 2, ''reflection_angle'')"
proof -
  let ?ray = "Ray_cylinder_init (Fin p) (Fin a) (Fin x0, Fin y0, Fin z0)"
  from first_incidence [OF assms(5,6,7), of p z0 fiber]
  obtain px py pz d where ci: "calculate_intersection ?ray (Fin R) = (Fin px, Fin py, Fin pz)"
    and dot: "np_dot (find_normal fiber (Fin px, Fin py, Fin pz)) (vector ?ray) = Fin d"
    and d: "d \<noteq> 0"
    by blast
  have cn: "core_n fiber \<noteq> Fin 0" using assms(2,3) by simp
  have mr: "1 \<le> max_reflection" using assms(8) by simp
  obtain k where k: "nat max_reflection - 1 = Suc k"
    using assms(8) by (cases "nat max_reflection - 1") auto
  have len: "1 < nat max_reflection" using assms(8) by simp
  have ta: "np_arcsin (clad_n fiber / core_n fiber) = Fin (pi / 2)"
    using assms(1,2,3) by simp
  have ra: "snd (snd (calculate_reflection ?ray (Fin px, Fin py, Fin pz)
                        (find_normal fiber (Fin px, Fin py, Fin pz)))) = Fin d"
    by (simp add: calculate_reflection_uses_reflected_vector dot)
  have nz: "\<not> z_max fiber < Fin pz" using assms(9) ci by simp
  have lt: "pi / 2 - \<bar>d\<bar> < pi / 2" using d by simp
  show ?thesis
    unfolding calculate_trajectory_unfold [OF cn mr] k ta
    using len nz lt
    by (simp add: loop_body_unfold assms(4) ci ra Let_def np_zeros_def)
qed


text \<open>
  Claim C3, as amended. For every cylinder whose \<open>clad_n\<close> equals its \<open>core_n\<close> (finite
  and not zero, so the critical angle is \<open>arcsin 1 = \<pi>/2\<close>) and whose core radius has a
  magnitude between \<open>10\<^sup>-\<^sup>1\<^sup>0\<^sup>0\<close> and \<open>10\<^sup>1\<^sup>0\<^sup>0\<close>, with angle elimination on and
  \<open>max_reflection \<ge> 2\<close>, and every oblique ray starting inside the core
  \<^item> whose incidence value at the first reflection,
    \<open>sin a * sqrt (\<gamma>\<^sup>2 - x0\<^sup>2 - y0\<^sup>2 + R\<^sup>2) / |R|\<close>, is at least \<open>10\<^sup>-\<^sup>6\<close>, and
  \<^item> whose first intersection lies below \<open>z_max\<close> by at least
    \<open>10\<^sup>-\<^sup>6 (|z0| + |R| cot a)\<close>,

  \<open>calculate_trajectory\<close> ends at the first reflection with reason \<open>reflection_angle\<close> and
  count 2. In exact arithmetic the two margins are not needed (\<open>first_reflection_terminates\<close>:
  the incidence value of an oblique ray from inside the core is never zero); they keep the
  double computation on the same side of the two tests \<open>z > z_max\<close> and
  \<open>\<pi>/2 - |angle| < \<pi>/2\<close>, and the bounds on the radius keep its square in range.
\<close>

theorem equal_indices_first_reflection:
  assumes "clad_n fiber = core_n fiber" and "core_n fiber = Fin n" and "n \<noteq> 0"
    and "core_r fiber = Fin R" and "1 / 10 ^ 100 \<le> \<bar>R\<bar>" and "\<bar>R\<bar> \<le> 10 ^ 100"
    and "0 < a" and "a < pi / 2" and "x0\<^sup>2 + y0\<^sup>2 < R\<^sup>2"
    and "2 \<le> max_reflection"
    and "1 / 10 ^ 6
           \<le> sin a * sqrt ((cos p * x0 + sin p * y0)\<^sup>2 - x0\<^sup>2 - y0\<^sup>2 + R\<^sup>2) / \<bar>R\<bar>"
    and "z_max fiber = Fin zm"
    and "z0 + cos a / sin a
               * (- (cos p * x0 + sin p * y0)
                  + sqrt ((cos p * x0 + sin p * y0)\<^sup>2 - x0\<^sup>2 - y0\<^sup>2 + R\<^sup>2))
            + 1 / 10 ^ 6 * (\<bar>z0\<bar> + cos a / sin a * \<bar>R\<bar>) \<le> zm"
  shows "\<exists>D A. calculate_trajectory (Ray_cylinder_init (Fin p) (Fin a) (Fin x0, Fin y0, Fin z0))
                 fiber max_reflection True rnd
               = Inr (D, A, 2, ''reflection_angle'')"
proof -
  let ?ray = "Ray_cylinder_init (Fin p) (Fin a) (Fin x0, Fin y0, Fin z0)"
  have sa: "0 < sin a" using assms(7,8) by (intro sin_gt_zero) (use pi_gt_zero in linarith)+
  have ca: "0 \<le> cos a" using assms(7,8) by (intro cos_ge_zero) linarith+
  have inside: "x0 * x0 + y0 * y0 \<le> R * R" using assms(9) by (simp add: power2_eq_square)
  have eq: "(cos p * x0 + sin p * y0) * (cos p * x0 + sin p * y0) - (x0 * x0 + y0 * y0 - R * R)
      = (cos p * x0 + sin p * y0)\<^sup>2 - x0\<^sup>2 - y0\<^sup>2 + R\<^sup>2"
    by (simp add: power2_eq_square)
  have pz: "snd (snd (calculate_intersection ?ray (Fin R)))
      = Fin (z0 + cos a / sin a
               * (- (cos p * x0 + sin p * y0)
                  + sqrt ((cos p * x0 + sin p * y0)\<^sup>2 - x0\<^sup>2 - y0\<^sup>2 + R\<^sup>2)))"
    using calculate_intersection_Fin [of ?ray p a x0 y0 z0 R] assms(7) sa inside
    by (simp add: Let_def eq Ray_cylinder_init_def)
  have "0 \<le> cos a / sin a * \<bar>R\<bar>" using ca sa by simp
  then have "0 \<le> 1 / 10 ^ 6 * (\<bar>z0\<bar> + cos a / sin a * \<bar>R\<bar>)" by simp
  then have "z0 + cos a / sin a
               * (- (cos p * x0 + sin p * y0)
                  + sqrt ((cos p * x0 + sin p * y0)\<^sup>2 - x0\<^sup>2 - y0\<^sup>2 + R\<^sup>2)) \<le> zm"
    using assms(13) by linarith
  then have below: "\<not> z_max fiber < snd (snd (calculate_intersection ?ray (Fin R)))"
    unfolding pz assms(12) by simp
  show ?thesis
    by (rule first_reflection_terminates [OF assms(1,2,3,4,7,8,9,10) below])
qed

theorem equal_indices_first_reflection_witness:
  "clad_n \<lparr> diffusion = None, core_r = Fin 1, clad_r = Fin 2, core_n = Fin 1, clad_n = Fin 1,
            z_max = Fin 10 \<rparr>
     = core_n \<lparr> diffusion = None, core_r = Fin 1, clad_r = Fin 2, core_n = Fin 1, clad_n = Fin 1,
            z_max = Fin 10 \<rparr>
   \<and> (1::real) \<noteq> 0 \<and> 1 / 10 ^ 100 \<le> \<bar>1 :: real\<bar> \<and> \<bar>1 :: real\<bar> \<le> 10 ^ 100
   \<and> 0 < pi / 4 \<and> pi / 4 < pi / 2 \<and> (0::real)\<^sup>2 + 0\<^sup>2 < 1\<^sup>2 \<and> (2::int) \<le> 3
   \<and> 1 / 10 ^ 6
        \<le> sin (pi / 4) * sqrt ((cos 0 * 0 + sin 0 * 0)\<^sup>2 - 0\<^sup>2 - 0\<^sup>2 + 1\<^sup>2) / \<bar>1 :: real\<bar>
   \<and> 0 + cos (pi / 4) / sin (pi / 4)
            * (- (cos 0 * 0 + sin 0 * 0) + sqrt ((cos 0 * 0 + sin 0 * 0)\<^sup>2 - 0\<^sup>2 - 0\<^sup>2 + 1\<^sup>2))
         + 1 / 10 ^ 6 * (\<bar>0 :: real\<bar> + cos (pi / 4) / sin (pi / 4) * \<bar>1 :: real\<bar>) \<le> 10
   \<and> (\<exists>D A. calculate_trajectory (Ray_cylinder_init (Fin 0) (Fin (pi / 4)) (Fin 0, Fin 0, Fin 0))
                 \<lparr> diffusion = None, core_r = Fin 1, clad_r = Fin 2, core_n = Fin 1, clad_n = Fin 1,
            z_max = Fin 10 \<rparr> 3 True no_random
               = Inr (D, A, 2, ''reflection_angle''))"
proof -
  let ?f = "\<lparr> diffusion = None, core_r = Fin 1, clad_r = Fin 2, core_n = Fin 1, clad_n = Fin 1,
            z_max = Fin 10 \<rparr>"
  have h1: "clad_n ?f = core_n ?f" and h2: "core_n ?f = Fin 1" and h4: "core_r ?f = Fin 1"
    and h12: "z_max ?f = Fin 10"
    by simp_all
  have h3: "(1::real) \<noteq> 0" by simp
  have b1: "1 / 10 ^ 100 \<le> \<bar>1 :: real\<bar>" and b2: "\<bar>1 :: real\<bar> \<le> 10 ^ 100" by simp_all
  have h5: "0 < pi / 4" and h6: "pi / 4 < pi / 2" using pi_gt_zero by simp_all
  have h7: "(0::real)\<^sup>2 + 0\<^sup>2 < 1\<^sup>2" by simp
  have h8: "(2::int) \<le> 3" by simp
  have "1 \<le> sqrt 2" by simp
  then have s2: "1 \<le> sqrt 2 * 500000" by linarith
  have h11: "1 / 10 ^ 6
        \<le> sin (pi / 4) * sqrt ((cos 0 * 0 + sin 0 * 0)\<^sup>2 - 0\<^sup>2 - 0\<^sup>2 + 1\<^sup>2) / \<bar>1 :: real\<bar>"
    using s2 by (simp add: sin_45)
  have h13: "0 + cos (pi / 4) / sin (pi / 4)
            * (- (cos 0 * 0 + sin 0 * 0) + sqrt ((cos 0 * 0 + sin 0 * 0)\<^sup>2 - 0\<^sup>2 - 0\<^sup>2 + 1\<^sup>2))
         + 1 / 10 ^ 6 * (\<bar>0 :: real\<bar> + cos (pi / 4) / sin (pi / 4) * \<bar>1 :: real\<bar>) \<le> 10"
    by (simp add: sin_45 cos_45)
  from equal_indices_first_reflection
         [OF h1 h2 h3 h4 b1 b2 h5 h6 h7 h8 h11 h12 h13, of no_random]
  show ?thesis using h1 h3 b1 b2 h5 h6 h7 h8 h11 h13 by blast
qed

text \<open>
  The claim as stated, for every such geometry, fails: the max-length test comes before
  the reflection, so a fiber shorter than the first bounce ends the trace with \<open>z_max\<close>.
\<close>

theorem equal_indices_counterexample:
  "calculate_trajectory (Ray_cylinder_init (Fin 0) (Fin (pi / 4)) (Fin 0, Fin 0, Fin 0))
     \<lparr> diffusion = None, core_r = Fin 1, clad_r = Fin 2, core_n = Fin 1, clad_n = Fin 1,
       z_max = Fin (1 / 2) \<rparr> 3 True no_random
   = Inr ([(Fin 0, Fin 0, Fin 0), (Fin (1 / 2), Fin 0, Fin (1 / 2)), (Fin 0, Fin 0, Fin 0)],
          [(Fin 0, Fin 45, Fin 0), (Fin 0, Fin 45, Fin 45), (Fin 0, Fin 0, Fin 0)],
          2, ''z_max'')"
proof -
  let ?r = "Ray_cylinder_init (Fin 0) (Fin (pi / 4)) (Fin 0, Fin 0, Fin 0)"
  have v: "vector ?r = (Fin (sqrt 2 / 2), Fin 0, Fin (sqrt 2 / 2))"
    by (simp add: Ray_cylinder_init_def sin_45 cos_45)
  have az: "azimut ?r = Fin 0" "latitude ?r = Fin (pi / 4)" "startpoint ?r = (Fin 0, Fin 0, Fin 0)"
    by (simp_all add: Ray_cylinder_init_def)
  have z3: "np_zeros 3 = [(Fin 0, Fin 0, Fin 0), (Fin 0, Fin 0, Fin 0), (Fin 0, Fin 0, Fin 0)]"
    by (simp add: np_zeros_def numeral_3_eq_3)
  have pos: "0 < pi" by (rule pi_gt_zero)
  show ?thesis
    using pos
    by (simp add: calculate_trajectory_unfold numeral_2_eq_2 z3 loop_body_unfold
          example_intersection v az Let_def rad2deg_rows_def np_rad2deg_def)
qed

section \<open>The axial ray in the trajectory loop\<close>

lemma axial_step_not_max_length:
  assumes "latitude (ray s) = Fin 0" and "z_max fiber = Fin zm" and "0 < zm"
  shows "loop_body fiber ae rnd ta i s \<noteq> Inr (Return (D, A, c, ''z_max''))"
proof -
  have "snd (snd (calculate_intersection (ray s) (core_r fiber))) = Fin (- 1)"
    using assms(1) by (simp add: calculate_intersection_def np_eq_def)
  then show ?thesis
    using assms(2,3) by (simp add: loop_body_unfold Let_def)
qed

text \<open>
  Claim C5 says that a ray with zenith exactly 0 in a cylinder with \<open>z_max > 0\<close> ends at
  the first step with the max-length reason at \<open>(x, y, z_max)\<close>. The code does not do that:
  \<open>calculate_intersection\<close> returns the sentinel \<open>z = -1\<close>, the test \<open>-1 > z_max\<close> is
  false, and the loop treats the sentinel as a reflection point. The run below, with the
  start point \<open>(1, 0, 0)\<close>, radius 2 and \<open>z_max = 10\<close>, stores \<open>(1, 0, -1)\<close> at every step
  and ends with \<open>max_reflections\<close>. More generally (\<open>axial_step_not_max_length\<close>), no
  step taken with latitude 0 in a fiber with \<open>z_max > 0\<close> ends with the max-length reason.
\<close>

theorem axial_ray_trace:
  "calculate_trajectory (Ray_cylinder_init (Fin 0) (Fin 0) (Fin 1, Fin 0, Fin 0))
     \<lparr> diffusion = None, core_r = Fin 2, clad_r = Fin 3, core_n = Fin 2, clad_n = Fin 1,
       z_max = Fin 10 \<rparr> 3 True no_random
   = Inr ([(Fin 1, Fin 0, Fin 0), (Fin 1, Fin 0, Fin (- 1)), (Fin 1, Fin 0, Fin (- 1))],
          [(Fin 0, Fin 0, Fin 0), (Fin 0, Fin 0, Fin 0), (Fin 0, Fin 0, Fin 0)],
          3, ''max_reflections'')"
proof -
  have z3: "np_zeros 3 = [(Fin 0, Fin 0, Fin 0), (Fin 0, Fin 0, Fin 0), (Fin 0, Fin 0, Fin 0)]"
    by (simp add: np_zeros_def numeral_3_eq_3)
  show ?thesis
    using arcsin_half_bound
    by (simp add: calculate_trajectory_unfold numeral_2_eq_2 z3 loop_body_unfold
          calculate_intersection_def np_eq_def Ray_cylinder_init_def set_values_def
          find_normal_def calculate_reflection_def reflected_vector_def np_dot_def
          calculate_angles_from_vector_def diffuse_def
          Let_def rad2deg_rows_def np_rad2deg_def)
qed

section \<open>A ray that misses the boundary\<close>

text \<open>
  Claim C6, as amended. For every ray state with a zenith other than 0, finite azimuth,
  and transverse start coordinates \<open>x0\<close>, \<open>y0\<close> and core radius \<open>R\<close> of magnitude at most
  \<open>10\<^sup>1\<^sup>5\<^sup>0\<close> (so that no square overflows) such that the discriminant
  \<open>\<gamma>\<^sup>2 - x0\<^sup>2 - y0\<^sup>2 + R\<^sup>2\<close> is negative by more than rounding, that is at most
  \<open>-10\<^sup>-\<^sup>9 (x0\<^sup>2 + y0\<^sup>2 + R\<^sup>2)\<close> with \<open>x0\<^sup>2 + y0\<^sup>2 + R\<^sup>2 \<ge> 10\<^sup>-\<^sup>2\<^sup>0\<^sup>0\<close>,
  \<open>calculate_intersection\<close> raises nothing and returns NaN in all three coordinates; the
  loop step stores that NaN point and goes on to the next step (every comparison with NaN
  is false, so neither terminal transition fires).
\<close>

theorem negative_discriminant_gives_nan:
  assumes "azimut (ray s) = Fin p" and "startpoint (ray s) = (Fin x0, Fin y0, z0)"
    and "latitude (ray s) \<noteq> Fin 0"
    and "\<bar>x0\<bar> \<le> 10 ^ 150" and "\<bar>y0\<bar> \<le> 10 ^ 150" and "\<bar>r\<bar> \<le> 10 ^ 150"
    and "1 / 10 ^ 200 \<le> x0\<^sup>2 + y0\<^sup>2 + r\<^sup>2"
    and "(cos p * x0 + sin p * y0)\<^sup>2 - x0\<^sup>2 - y0\<^sup>2 + r\<^sup>2
           \<le> - (1 / 10 ^ 9) * (x0\<^sup>2 + y0\<^sup>2 + r\<^sup>2)"
    and "core_r fiber = Fin r"
    and "i < length (Dots s)" and "i < length (Angles s)"
  shows "calculate_intersection (ray s) (Fin r) = (NaN, NaN, NaN)
     \<and> (\<exists>s'. loop_body fiber ae rnd ta i s = Inr (Continue s')
             \<and> Dots s' = (Dots s)[i := (NaN, NaN, NaN)])"
proof -
  have "(0::real) < 1 / 10 ^ 200" by simp
  then have S: "0 < x0\<^sup>2 + y0\<^sup>2 + r\<^sup>2" using assms(7) by linarith
  then have "0 < (1 / 10 ^ 9) * (x0\<^sup>2 + y0\<^sup>2 + r\<^sup>2)" by simp
  then have "(cos p * x0 + sin p * y0)\<^sup>2 - x0\<^sup>2 - y0\<^sup>2 + r\<^sup>2 < 0"
    using assms(8) by linarith
  then have neg: "(cos p * x0 + sin p * y0) * (cos p * x0 + sin p * y0) - x0 * x0 - y0 * y0 + r * r < 0"
    by (simp add: power2_eq_square)
  have ci: "calculate_intersection (ray s) (Fin r) = (NaN, NaN, NaN)"
    using assms(3) neg by (simp add: calculate_intersection_def np_eq_def assms(1,2) Let_def)
  have fn: "find_normal fiber (NaN, NaN, NaN) = (NaN, NaN, NaN)"
    by (simp add: find_normal_def)
  have ra: "snd (snd (calculate_reflection (ray s) (NaN, NaN, NaN) (NaN, NaN, NaN))) = NaN"
    by (simp add: calculate_reflection_uses_reflected_vector np_dot_def split: prod.splits)
  show ?thesis
    using assms(10,11) by (simp add: ci loop_body_unfold assms(9) fn ra Let_def)
qed

theorem negative_discriminant_gives_nan_witness:
  "azimut (ray \<lparr> ray = Ray_cylinder_init (Fin 0) (Fin (pi / 4)) (Fin 0, Fin 3, Fin 0),
          Dots = [(Fin 0, Fin 3, Fin 0), (Fin 0, Fin 0, Fin 0)],
          Angles = [(Fin 0, Fin (pi / 4), Fin 0), (Fin 0, Fin 0, Fin 0)],
          reflection_angle = Fin (pi / 4) \<rparr>) = Fin 0
   \<and> startpoint (ray \<lparr> ray = Ray_cylinder_init (Fin 0) (Fin (pi / 4)) (Fin 0, Fin 3, Fin 0),
          Dots = [(Fin 0, Fin 3, Fin 0), (Fin 0, Fin 0, Fin 0)],
          Angles = [(Fin 0, Fin (pi / 4), Fin 0), (Fin 0, Fin 0, Fin 0)],
          reflection_angle = Fin (pi / 4) \<rparr>) = (Fin 0, Fin 3, Fin 0)
   \<and> latitude (ray \<lparr> ray = Ray_cylinder_init (Fin 0) (Fin (pi / 4)) (Fin 0, Fin 3, Fin 0),
          Dots = [(Fin 0, Fin 3, Fin 0), (Fin 0, Fin 0, Fin 0)],
          Angles = [(Fin 0, Fin (pi / 4), Fin 0), (Fin 0, Fin 0, Fin 0)],
          reflection_angle = Fin (pi / 4) \<rparr>) \<noteq> Fin 0
   \<and> \<bar>0 :: real\<bar> \<le> 10 ^ 150 \<and> \<bar>3 :: real\<bar> \<le> 10 ^ 150 \<and> \<bar>1 :: real\<bar> \<le> 10 ^ 150
   \<and> 1 / 10 ^ 200 \<le> (0::real)\<^sup>2 + 3\<^sup>2 + 1\<^sup>2
   \<and> (cos 0 * 0 + sin 0 * 3)\<^sup>2 - 0\<^sup>2 - 3\<^sup>2 + 1\<^sup>2
        \<le> - (1 / 10 ^ 9) * ((0::real)\<^sup>2 + 3\<^sup>2 + 1\<^sup>2)
   \<and> core_r \<lparr> diffusion = None, core_r = Fin 1, clad_r = Fin 2, core_n = Fin 2,
          clad_n = Fin 1, z_max = Fin 10 \<rparr> = Fin 1
   \<and> 1 < length (Dots \<lparr> ray = Ray_cylinder_init (Fin 0) (Fin (pi / 4)) (Fin 0, Fin 3, Fin 0),
          Dots = [(Fin 0, Fin 3, Fin 0), (Fin 0, Fin 0, Fin 0)],
          Angles = [(Fin 0, Fin (pi / 4), Fin 0), (Fin 0, Fin 0, Fin 0)],
          reflection_angle = Fin (pi / 4) \<rparr>)
   \<and> 1 < length (Angles \<lparr> ray = Ray_cylinder_init (Fin 0) (Fin (pi / 4)) (Fin 0, Fin 3, Fin 0),
          Dots = [(Fin 0, Fin 3, Fin 0), (Fin 0, Fin 0, Fin 0)],
          Angles = [(Fin 0, Fin (pi / 4), Fin 0), (Fin 0, Fin 0, Fin 0)],
          reflection_angle = Fin (pi / 4) \<rparr>)
   \<and> calculate_intersection (ray \<lparr> ray = Ray_cylinder_init (Fin 0) (Fin (pi / 4)) (Fin 0, Fin 3, Fin 0),
          Dots = [(Fin 0, Fin 3, Fin 0), (Fin 0, Fin 0, Fin 0)],
          Angles = [(Fin 0, Fin (pi / 4), Fin 0), (Fin 0, Fin 0, Fin 0)],
          reflection_angle = Fin (pi / 4) \<rparr>) (Fin 1) = (NaN, NaN, NaN)
   \<and> (\<exists>s'. loop_body \<lparr> diffusion = None, core_r = Fin 1, clad_r = Fin 2, core_n = Fin 2,
          clad_n = Fin 1, z_max = Fin 10 \<rparr> True no_random (Fin (pi / 6)) 1
               \<lparr> ray = Ray_cylinder_init (Fin 0) (Fin (pi / 4)) (Fin 0, Fin 3, Fin 0),
          Dots = [(Fin 0, Fin 3, Fin 0), (Fin 0, Fin 0, Fin 0)],
          Angles = [(Fin 0, Fin (pi / 4), Fin 0), (Fin 0, Fin 0, Fin 0)],
          reflection_angle = Fin (pi / 4) \<rparr> = Inr (Continue s')
           \<and> Dots s' = (Dots \<lparr> ray = Ray_cylinder_init (Fin 0) (Fin (pi / 4)) (Fin 0, Fin 3, Fin 0),
          Dots = [(Fin 0, Fin 3, Fin 0), (Fin 0, Fin 0, Fin 0)],
          Angles = [(Fin 0, Fin (pi / 4), Fin 0), (Fin 0, Fin 0, Fin 0)],
          reflection_angle = Fin (pi / 4) \<rparr>)[1 := (NaN, NaN, NaN)])"
proof -
  let ?s = "\<lparr> ray = Ray_cylinder_init (Fin 0) (Fin (pi / 4)) (Fin 0, Fin 3, Fin 0),
          Dots = [(Fin 0, Fin 3, Fin 0), (Fin 0, Fin 0, Fin 0)],
          Angles = [(Fin 0, Fin (pi / 4), Fin 0), (Fin 0, Fin 0, Fin 0)],
          reflection_angle = Fin (pi / 4) \<rparr>"
  let ?f = "\<lparr> diffusion = None, core_r = Fin 1, clad_r = Fin 2, core_n = Fin 2,
          clad_n = Fin 1, z_max = Fin 10 \<rparr>"
  have h1: "azimut (ray ?s) = Fin 0" by (simp add: Ray_cylinder_init_def)
  have h2: "startpoint (ray ?s) = (Fin 0, Fin 3, Fin 0)" by (simp add: Ray_cylinder_init_def)
  have "pi / 4 \<noteq> 0" using pi_gt_zero by simp
  then have h3: "latitude (ray ?s) \<noteq> Fin 0" by (simp add: Ray_cylinder_init_def)
  have b1: "\<bar>0 :: real\<bar> \<le> 10 ^ 150" and b2: "\<bar>3 :: real\<bar> \<le> 10 ^ 150"
    and b3: "\<bar>1 :: real\<bar> \<le> 10 ^ 150"
    by simp_all
  have b4: "1 / 10 ^ 200 \<le> (0::real)\<^sup>2 + 3\<^sup>2 + 1\<^sup>2" by simp
  have h4: "(cos 0 * 0 + sin 0 * 3)\<^sup>2 - 0\<^sup>2 - 3\<^sup>2 + 1\<^sup>2
        \<le> - (1 / 10 ^ 9) * ((0::real)\<^sup>2 + 3\<^sup>2 + 1\<^sup>2)"
    by simp
  have h5: "core_r ?f = Fin 1" by simp
  have h6: "1 < length (Dots ?s)" and h7: "1 < length (Angles ?s)" by simp_all
  from negative_discriminant_gives_nan
         [OF h1 h2 h3 b1 b2 b3 b4 h4 h5 h6 h7, of True no_random "Fin (pi / 6)"]
  show ?thesis using h1 h2 h3 b1 b2 b3 b4 h4 h5 h6 h7 by blast
qed

text \<open>
  The claim as stated, that the step surfaces an error, fails: the trace of a ray that
  starts outside the core and misses it returns normally, with NaN rows.
\<close>

theorem missed_boundary_counterexample:
  "calculate_trajectory (Ray_cylinder_init (Fin 0) (Fin (pi / 4)) (Fin 0, Fin 3, Fin 0))
     \<lparr> diffusion = None, core_r = Fin 1, clad_r = Fin 2, core_n = Fin 2, clad_n = Fin 1,
       z_max = Fin 10 \<rparr> 2 True no_random
   = Inr ([(Fin 0, Fin 3, Fin 0), (NaN, NaN, NaN)],
          [(Fin 0, Fin 45, Fin 0), (NaN, NaN, NaN)],
          2, ''max_reflections'')"
proof -
  have z2: "np_zeros 2 = [(Fin 0, Fin 0, Fin 0), (Fin 0, Fin 0, Fin 0)]"
    by (simp add: np_zeros_def numeral_2_eq_2)
  have pos: "0 < pi" by (rule pi_gt_zero)
  show ?thesis
    using pos
    by (simp add: calculate_trajectory_unfold z2 loop_body_unfold
          calculate_intersection_def np_eq_def Ray_cylinder_init_def set_values_def
          find_normal_def calculate_reflection_def reflected_vector_def np_dot_def
          calculate_angles_from_vector_def diffuse_def linalg_norm_def
          Let_def rad2deg_rows_def np_rad2deg_def)
qed

section \<open>A worked trace: four reflections of a ray at 45 degrees\<close>

text \<open>
  A ray in the plane \<open>y = 0\<close> with zenith \<open>\<pi>/4\<close> in a core of radius 1 goes from wall to
  wall: heading right (azimuth 0) it meets the wall at \<open>x = 1\<close> and leaves with azimuth
  \<open>-\<pi>\<close>, heading left it meets \<open>x = -1\<close> and leaves with azimuth 0. The incidence value
  \<open>np.dot(normal, vector)\<close> is \<open>-\<surd>2/2\<close> at every reflection.
\<close>

lemma arccos_45: "arccos (sqrt 2 / 2) = pi / 4"
  using arccos_cos [of "pi / 4"] pi_gt_zero by (simp add: cos_45)

lemma sqrt_half: "sqrt (1 / 2) = sqrt 2 / 2"
proof -
  have "sqrt (1 / 2) = 1 / sqrt 2" by (simp add: real_sqrt_divide)
  also have "\<dots> = sqrt 2 / 2" by (simp add: field_simps)
  finally show ?thesis .
qed

lemma sqrt2_le_2: "sqrt 2 \<le> 2"
  using real_sqrt_le_mono [of 2 4] by simp

lemma sqrt2_ge_minus_2: "- 2 \<le> sqrt 2"
proof -
  have "0 \<le> sqrt 2" by simp
  then show ?thesis by linarith
qed

lemma ray_fields [simp]:
  "azimut (Ray_cylinder_init az lat sp) = az"
  "latitude (Ray_cylinder_init az lat sp) = lat"
  "startpoint (Ray_cylinder_init az lat sp) = sp"
  "vector (Ray_cylinder_init az lat sp)
     = (np_sin lat * np_cos az, np_sin lat * np_sin az, np_cos lat)"
  by (simp_all add: Ray_cylinder_init_def)

lemma bounce_right:
  assumes "i < length D" and "i < length A" and "z + (1 - x0) \<le> zm"
  shows "loop_body \<lparr> diffusion = None, core_r = Fin 1, clad_r = Fin 2, core_n = Fin 2,
            clad_n = Fin 1, z_max = Fin zm \<rparr> False no_random ta i
     \<lparr> ray = Ray_cylinder_init (Fin 0) (Fin (pi / 4)) (Fin x0, Fin 0, Fin z),
       Dots = D, Angles = A, reflection_angle = q \<rparr>
   = Inr (Continue
       \<lparr> ray = Ray_cylinder_init (Fin (- pi)) (Fin (pi / 4)) (Fin 1, Fin 0, Fin (z + (1 - x0))),
         Dots = D[i := (Fin 1, Fin 0, Fin (z + (1 - x0)))],
         Angles = A[i := (Fin (- pi), Fin (pi / 4), Fin (sqrt 2 / 2))],
         reflection_angle = Fin (- (sqrt 2 / 2)) \<rparr>)"
proof -
  let ?r = "Ray_cylinder_init (Fin 0) (Fin (pi / 4)) (Fin x0, Fin 0, Fin z)"
  have pos: "pi / 4 \<noteq> 0" using pi_gt_zero by simp
  have ci: "calculate_intersection ?r (Fin 1) = (Fin 1, Fin 0, Fin (z + (1 - x0)))"
    using pos by (simp add: calculate_intersection_def np_eq_def Let_def sin_45 cos_45)
  have fn: "find_normal f (Fin 1, Fin 0, zz) = (Fin (- 1), Fin 0, Fin 0)" for f zz
    by (simp add: find_normal_def)
  have rv: "reflected_vector (Fin (- 1), Fin 0, Fin 0) (vector ?r)
      = (Fin (- (sqrt 2 / 2)), Fin 0, Fin (sqrt 2 / 2))"
    by (simp add: reflected_vector_def np_dot_def Let_def sin_45 cos_45)
  have an: "calculate_angles_from_vector (Fin (- (sqrt 2 / 2)), Fin 0, Fin (sqrt 2 / 2))
      = (Fin (- pi), Fin (pi / 4))"
    using pos sqrt2_le_2 sqrt2_ge_minus_2
    by (simp add: calculate_angles_from_vector_def linalg_norm_def np_eq_def Let_def arccos_45
          sqrt_half)
  have dt: "np_dot (Fin (- 1), Fin 0, Fin 0) (vector ?r) = Fin (- (sqrt 2 / 2))"
    by (simp add: np_dot_def sin_45 cos_45)
  have cr: "calculate_reflection ?r P (Fin (- 1), Fin 0, Fin 0)
      = (Fin (- pi), Fin (pi / 4), Fin (- (sqrt 2 / 2)))" for P
    unfolding calculate_reflection_uses_reflected_vector rv an dt by simp
  show ?thesis
    using assms
    by (simp add: loop_body_unfold ci fn cr diffuse_def set_values_init Let_def
          del: ray_fields(4))
qed


lemma bounce_left:
  assumes "i < length D" and "i < length A" and "z + (x0 + 1) \<le> zm"
  shows "loop_body \<lparr> diffusion = None, core_r = Fin 1, clad_r = Fin 2, core_n = Fin 2,
            clad_n = Fin 1, z_max = Fin zm \<rparr> False no_random ta i
     \<lparr> ray = Ray_cylinder_init (Fin (- pi)) (Fin (pi / 4)) (Fin x0, Fin 0, Fin z),
       Dots = D, Angles = A, reflection_angle = q \<rparr>
   = Inr (Continue
       \<lparr> ray = Ray_cylinder_init (Fin 0) (Fin (pi / 4)) (Fin (- 1), Fin 0, Fin (z + (x0 + 1))),
         Dots = D[i := (Fin (- 1), Fin 0, Fin (z + (x0 + 1)))],
         Angles = A[i := (Fin 0, Fin (pi / 4), Fin (sqrt 2 / 2))],
         reflection_angle = Fin (- (sqrt 2 / 2)) \<rparr>)"
proof -
  let ?r = "Ray_cylinder_init (Fin (- pi)) (Fin (pi / 4)) (Fin x0, Fin 0, Fin z)"
  have pos: "pi / 4 \<noteq> 0" using pi_gt_zero by simp
  have ci: "calculate_intersection ?r (Fin 1) = (Fin (- 1), Fin 0, Fin (z + (x0 + 1)))"
    using pos by (simp add: calculate_intersection_def np_eq_def Let_def sin_45 cos_45)
  have fn: "find_normal f (Fin (- 1), Fin 0, zz) = (Fin 1, Fin 0, Fin 0)" for f zz
    by (simp add: find_normal_def)
  have rv: "reflected_vector (Fin 1, Fin 0, Fin 0) (vector ?r)
      = (Fin (sqrt 2 / 2), Fin 0, Fin (sqrt 2 / 2))"
    by (simp add: reflected_vector_def np_dot_def Let_def sin_45 cos_45)
  have an: "calculate_angles_from_vector (Fin (sqrt 2 / 2), Fin 0, Fin (sqrt 2 / 2))
      = (Fin 0, Fin (pi / 4))"
    using pos sqrt2_le_2 sqrt2_ge_minus_2
    by (simp add: calculate_angles_from_vector_def linalg_norm_def np_eq_def Let_def arccos_45
          sqrt_half)
  have dt: "np_dot (Fin 1, Fin 0, Fin 0) (vector ?r) = Fin (- (sqrt 2 / 2))"
    by (simp add: np_dot_def sin_45 cos_45)
  have cr: "calculate_reflection ?r P (Fin 1, Fin 0, Fin 0)
      = (Fin 0, Fin (pi / 4), Fin (- (sqrt 2 / 2)))" for P
    unfolding calculate_reflection_uses_reflected_vector rv an dt by simp
  show ?thesis
    using assms
    by (simp add: loop_body_unfold ci fn cr diffuse_def set_values_init Let_def
          del: ray_fields(4))
qed

text \<open>
  The whole call with \<open>max_reflection = 5\<close> and angle elimination off, in a fiber of
  length 100: four reflections, no terminal transition, the axial coordinate of the
  stored points strictly increasing, reason \<open>max_reflections\<close> and count 5.
\<close>

lemma zigzag_run:
  "calculate_trajectory (Ray_cylinder_init (Fin 0) (Fin (pi / 4)) (Fin 0, Fin 0, Fin 0))
     \<lparr> diffusion = None, core_r = Fin 1, clad_r = Fin 2, core_n = Fin 2, clad_n = Fin 1,
       z_max = Fin 100 \<rparr> 5 False no_random
   = Inr ([(Fin 0, Fin 0, Fin 0), (Fin 1, Fin 0, Fin 1), (Fin (- 1), Fin 0, Fin 3),
           (Fin 1, Fin 0, Fin 5), (Fin (- 1), Fin 0, Fin 7)],
          rad2deg_rows
            [(Fin 0, Fin (pi / 4), Fin 0), (Fin (- pi), Fin (pi / 4), Fin (sqrt 2 / 2)),
             (Fin 0, Fin (pi / 4), Fin (sqrt 2 / 2)), (Fin (- pi), Fin (pi / 4), Fin (sqrt 2 / 2)),
             (Fin 0, Fin (pi / 4), Fin (sqrt 2 / 2))],
          5, ''max_reflections'')"
proof -
  have z5: "np_zeros 5 = [(Fin 0, Fin 0, Fin 0), (Fin 0, Fin 0, Fin 0), (Fin 0, Fin 0, Fin 0),
      (Fin 0, Fin 0, Fin 0), (Fin 0, Fin 0, Fin 0)]"
    by (simp add: np_zeros_def eval_nat_numeral)
  have four: "(4::nat) = Suc (Suc (Suc (Suc 0)))" by simp
  show ?thesis
    by (simp add: calculate_trajectory_unfold four z5 bounce_right bounce_left
          del: ray_fields(4))
qed



section \<open>The max-length transition\<close>





section \<open>Using up the reflection budget\<close>








end
